theory Spec2Isabelle
  imports Complex_Main "HOL-Library.Product_Lexorder" "HOL-Library.Multiset"
begin

section \<open>Numbers, dates and strings of the JavaScript runtime\<close>

text \<open>
  The component is written in JavaScript. Its numbers are modelled as exact reals
  (pixels, view units) and integers (millisecond time stamps, pixel results of
  \<open>Math.round\<close>); strings are HOL strings. \<open>Math.round\<close> rounds half up:
  it is \<open>floor (x + 1/2)\<close>. The rounding of floating-point arithmetic, infinities
  and NaN are not modelled: where the code divides by \<open>pxPerUnit\<close> or by the snap
  unit, the properties below take it to be positive.
\<close>

definition js_round :: "real \<Rightarrow> int" where
  "js_round x = \<lfloor>x + 1 / 2\<rfloor>"

definition clamp :: "int \<Rightarrow> int \<Rightarrow> int \<Rightarrow> int" where
  "clamp n a b = max a (min b n)"

text \<open>
  A \<open>Date\<close> is its time value, the milliseconds since the epoch. The calendar
  accessors are those of the proleptic Gregorian calendar; the local time zone is
  taken to be UTC, without daylight saving.
\<close>

type_synonym date = int

definition HOUR_MS :: int where
  "HOUR_MS = 60 * 60 * 1000"

definition DAY_MS :: int where
  "DAY_MS = 24 * HOUR_MS"

text \<open>Day number (days since 1970-01-01) of a year, a month 1..12 and a day of the month.\<close>

definition days_from_civil :: "int \<Rightarrow> int \<Rightarrow> int \<Rightarrow> int" where
  "days_from_civil y m d =
     (let y' = (if m \<le> 2 then y - 1 else y);
          era = y' div 400;
          yoe = y' - era * 400;
          doy = (153 * (if m > 2 then m - 3 else m + 9) + 2) div 5 + d - 1;
          doe = yoe * 365 + yoe div 4 - yoe div 100 + doy
      in era * 146097 + doe - 719468)"

text \<open>Year, month 1..12 and day of the month of a day number.\<close>

definition civil_from_days :: "int \<Rightarrow> int \<times> int \<times> int" where
  "civil_from_days z =
     (let z' = z + 719468;
          era = z' div 146097;
          doe = z' - era * 146097;
          yoe = (doe - doe div 1460 + doe div 36524 - doe div 146096) div 365;
          y = yoe + era * 400;
          doy = doe - (365 * yoe + yoe div 4 - yoe div 100);
          mp = (5 * doy + 2) div 153;
          d = doy - (153 * mp + 2) div 5 + 1;
          m = (if mp < 10 then mp + 3 else mp - 9)
      in (if m \<le> 2 then y + 1 else y, m, d))"

definition getFullYear :: "date \<Rightarrow> int" where
  "getFullYear t = fst (civil_from_days (t div DAY_MS))"

text \<open>\<open>getMonth\<close> counts from 0.\<close>

definition getMonth :: "date \<Rightarrow> int" where
  "getMonth t = fst (snd (civil_from_days (t div DAY_MS))) - 1"

definition getDate :: "date \<Rightarrow> int" where
  "getDate t = snd (snd (civil_from_days (t div DAY_MS)))"

text \<open>\<open>getDay\<close>: 0 is Sunday; 1970-01-01 was a Thursday.\<close>

definition getDay :: "date \<Rightarrow> int" where
  "getDay t = (t div DAY_MS + 4) mod 7"

definition getHours :: "date \<Rightarrow> int" where
  "getHours t = (t mod DAY_MS) div HOUR_MS"

definition getMinutes :: "date \<Rightarrow> int" where
  "getMinutes t = (t mod HOUR_MS) div 60000"

text \<open>
  \<open>new Date(year, month, day, 0, 0, 0, 0)\<close> with a month counted from 0: a month
  outside 0..11 carries into the year, and the day is counted from the first of the
  month, so that day 0 is the last day of the month before.
\<close>

definition newDate :: "int \<Rightarrow> int \<Rightarrow> int \<Rightarrow> date" where
  "newDate y m d = (days_from_civil (y + m div 12) (m mod 12 + 1) 1 + (d - 1)) * DAY_MS"

text \<open>\<open>x.setHours(0,0,0,0)\<close>\<close>

definition setHours0 :: "date \<Rightarrow> date" where
  "setHours0 t = (t div DAY_MS) * DAY_MS"

text \<open>\<open>x.setDate(x.getDate() - k)\<close>: \<open>k\<close> calendar days back.\<close>

definition setDate_back :: "date \<Rightarrow> int \<Rightarrow> date" where
  "setDate_back t k = t - k * DAY_MS"

definition daysInMonth :: "date \<Rightarrow> int" where
  "daysInMonth d = getDate (newDate (getFullYear d) (getMonth d + 1) 0)"

text \<open>Regular expressions used on the preset: a plain substring test, with or without case.\<close>

fun starts_with :: "string \<Rightarrow> string \<Rightarrow> bool" where
  "starts_with [] ys = True"
| "starts_with (x # xs) [] = False"
| "starts_with (x # xs) (y # ys) = (x = y \<and> starts_with xs ys)"

fun contains_str :: "string \<Rightarrow> string \<Rightarrow> bool" where
  "contains_str pat [] = starts_with pat []"
| "contains_str pat (y # ys) = (starts_with pat (y # ys) \<or> contains_str pat ys)"

definition lower_char :: "char \<Rightarrow> char" where
  "lower_char c =
     (let n = (of_char c :: nat) in if 65 \<le> n \<and> n \<le> 90 then char_of (n + 32) else c)"

text \<open>\<open>/Work/i.test(preset)\<close>\<close>

definition test_Work_i :: "string \<Rightarrow> bool" where
  "test_Work_i preset = contains_str ''work'' (map lower_char preset)"

definition is_digit :: "char \<Rightarrow> bool" where
  "is_digit c = (let n = (of_char c :: nat) in 48 \<le> n \<and> n \<le> 57)"

text \<open>
  \<open>String(preset).match(/([0-9]+)/)\<close>: the first maximal run of digits, or no match.
\<close>

definition match_digits :: "string \<Rightarrow> string option" where
  "match_digits s =
     (let run = takeWhile is_digit (dropWhile (\<lambda>c. \<not> is_digit c) s)
      in if run = [] then None else Some run)"

text \<open>\<open>parseInt(m[1], 10)\<close> on a run of digits.\<close>

definition parseInt :: "string \<Rightarrow> int" where
  "parseInt ds = foldl (\<lambda>acc c. 10 * acc + (int (of_char c) - 48)) 0 ds"

section \<open>Data model\<close>

record task =
  task_id :: string
  resourceId :: string
  start :: date
  end' :: date
  title :: string
  color :: string

record resource =
  res_id :: string
  res_name :: string

record seg =
  startUnit :: real
  endUnit :: real
  label :: string

record scale =
  totalUnits :: int
  visibleUnits :: int
  pxPerUnit :: real
  contentPx :: real

record pixels =
  leftPx :: int
  widthPx :: int
  px_label :: string

section \<open>Segment to pixels\<close>

text \<open>
  \<open>segToPixels(seg, scale)\<close>; the two copies of the function in the file are the
  same. A missing segment or scale gives the zero rectangle with the segment's label,
  if any.
\<close>

definition segToPixels :: "seg option \<Rightarrow> scale option \<Rightarrow> pixels" where
  "segToPixels sg sc =
     (case (sg, sc) of
        (Some s, Some c) \<Rightarrow>
          \<lparr> leftPx = js_round (startUnit s * pxPerUnit c),
            widthPx = max 4 (js_round ((endUnit s - startUnit s) * pxPerUnit c)),
            px_label = label s \<rparr>
      | _ \<Rightarrow>
          \<lparr> leftPx = 0, widthPx = 0,
            px_label = (case sg of Some s \<Rightarrow> label s | None \<Rightarrow> []) \<rparr>)"

section \<open>Time projection\<close>

text \<open>
  \<open>projectTaskToView\<close>, first copy (lines 644 to 710, the one that intersects the
  task with the window). A comparison of two \<open>Date\<close>s compares their time values.
\<close>

definition projectTaskToView :: "task \<Rightarrow> string \<Rightarrow> string \<Rightarrow> date \<Rightarrow> seg option" where
  "projectTaskToView t view preset anchorDate =
     (if view = ''hour'' then
        (let dayStart = newDate (getFullYear anchorDate) (getMonth anchorDate) (getDate anchorDate);
             dayEnd = dayStart + 24 * 60 * 60 * 1000;
             s = max (start t) dayStart;
             e = min (end' t) dayEnd
         in if e \<le> s then None
            else (let startU = real_of_int (s - dayStart) / 3600000;
                      endU = max (startU + 5 / 60) (real_of_int (e - dayStart) / 3600000)
                  in Some \<lparr> startUnit = startU, endUnit = endU, label = title t \<rparr>))
      else if view = ''week'' then
        (let work = test_Work_i preset;
             ws0 = setHours0 anchorDate;
             ws = (if work then setDate_back ws0 ((getDay ws0 + 6) mod 7)
                   else setDate_back ws0 (getDay ws0));
             dayCount = (if work then 5 else 7);
             we = ws + dayCount * DAY_MS;
             s = max (start t) ws;
             e = min (end' t) we
         in if e \<le> s then None
            else (let startU = real_of_int (s - ws) / real_of_int DAY_MS;
                      endU = max (startU + 0.5 / 24) (real_of_int (e - ws) / real_of_int DAY_MS)
                  in Some \<lparr> startUnit = startU, endUnit = endU, label = title t \<rparr>))
      else if view = ''month'' then
        (let ms = newDate (getFullYear anchorDate) (getMonth anchorDate) 1;
             me = newDate (getFullYear anchorDate) (getMonth anchorDate + 1) 1;
             s = max (start t) ms;
             e = min (end' t) me
         in if e \<le> s then None
            else (let startU = real_of_int (s - ms) / real_of_int DAY_MS;
                      endU = max (startU + 0.5 / 24) (real_of_int (e - ms) / real_of_int DAY_MS)
                  in Some \<lparr> startUnit = startU, endUnit = endU, label = title t \<rparr>))
      else None)"

text \<open>
  The visible window of a view, as the first copy of \<open>projectTaskToView\<close> computes
  it: the day of the anchor in hour view; the week of the anchor in week view, five
  days from Monday for a work week and seven days from Sunday otherwise; the month of
  the anchor in month view.
\<close>

definition hour_window :: "date \<Rightarrow> date \<times> date" where
  "hour_window anchorDate =
     (let dayStart = newDate (getFullYear anchorDate) (getMonth anchorDate) (getDate anchorDate);
          dayEnd = dayStart + 24 * 60 * 60 * 1000
      in (dayStart, dayEnd))"

definition week_window :: "string \<Rightarrow> date \<Rightarrow> date \<times> date" where
  "week_window preset anchorDate =
     (let work = test_Work_i preset;
          ws0 = setHours0 anchorDate;
          ws = (if work then setDate_back ws0 ((getDay ws0 + 6) mod 7)
                else setDate_back ws0 (getDay ws0));
          dayCount = (if work then 5 else 7);
          we = ws + dayCount * DAY_MS
      in (ws, we))"

definition month_window :: "date \<Rightarrow> date \<times> date" where
  "month_window anchorDate =
     (let ms = newDate (getFullYear anchorDate) (getMonth anchorDate) 1;
          me = newDate (getFullYear anchorDate) (getMonth anchorDate + 1) 1
      in (ms, me))"

text \<open>
  The shape the three branches share: intersect the task with the window, give up when
  nothing of positive length is left, and express the rest in units of \<open>unit_ms\<close>
  milliseconds since the window's start, at least \<open>min_units\<close> wide.
\<close>

definition clip_to_window ::
  "task \<Rightarrow> date \<times> date \<Rightarrow> int \<Rightarrow> real \<Rightarrow> seg option" where
  "clip_to_window t win unit_ms min_units =
     (let s = max (start t) (fst win);
          e = min (end' t) (snd win)
      in if e \<le> s then None
         else (let startU = real_of_int (s - fst win) / real_of_int unit_ms;
                   endU = max (startU + min_units)
                              (real_of_int (e - fst win) / real_of_int unit_ms)
               in Some \<lparr> startUnit = startU, endUnit = endU, label = title t \<rparr>))"

text \<open>
  \<open>projectTaskToView\<close>, second copy (lines 1515 to 1543, the one the first copy
  keeps in a comment marked OLD): it reads the clock fields of the task's start and
  end.
\<close>

definition projectTaskToView_v2 :: "task \<Rightarrow> string \<Rightarrow> string \<Rightarrow> date \<Rightarrow> seg option" where
  "projectTaskToView_v2 t view preset anchorDate =
     (if view = ''hour'' then
        (let startH = real_of_int (getHours (start t)) + real_of_int (getMinutes (start t)) / 60;
             endH = real_of_int (getHours (end' t)) + real_of_int (getMinutes (end' t)) / 60
         in Some \<lparr> startUnit = startH, endUnit = max (startH + 0.05) endH, label = title t \<rparr>)
      else if view = ''week'' then
        (let work = test_Work_i preset;
             monIdx = (getDay (start t) + 6) mod 7;
             dayIdx = (if work then monIdx else getDay (start t));
             dayCount = (if work then 5 else 7)
         in if dayIdx < 0 \<or> dayIdx \<ge> dayCount then None
            else (let startU = real_of_int dayIdx +
                        (real_of_int (getHours (start t)) +
                         real_of_int (getMinutes (start t)) / 60) / 24;
                      endU = min (real_of_int dayCount)
                        (real_of_int dayIdx +
                         max (1 / 24) (real_of_int (end' t - start t) / 86400000))
                  in Some \<lparr> startUnit = startU, endUnit = endU, label = title t \<rparr>))
      else if view = ''month'' then
        (let dim = daysInMonth anchorDate;
             sDay = clamp (getDate (start t)) 1 dim - 1;
             eDay = clamp (getDate (end' t)) 1 dim - 1;
             sFrac = (real_of_int (getHours (start t)) +
                      real_of_int (getMinutes (start t)) / 60) / 24;
             eFrac = (real_of_int (getHours (end' t)) +
                      real_of_int (getMinutes (end' t)) / 60) / 24;
             startU = real_of_int sDay + sFrac;
             endU = max (startU + 1 / 48) (real_of_int eDay + eFrac)
         in Some \<lparr> startUnit = startU, endUnit = endU, label = title t \<rparr>)
      else None)"

text \<open>
  Reading a unit back as a time, in milliseconds: the window's start plus that many
  units, the inverse of the map from times to units of the first copy of
  \<open>projectTaskToView\<close>. A unit is an hour in hour view and a day otherwise; the
  minimum width is 1/12 of an hour in hour view and 1/48 of a day otherwise.
\<close>

definition view_window :: "string \<Rightarrow> string \<Rightarrow> date \<Rightarrow> date \<times> date" where
  "view_window view preset anchorDate =
     (if view = ''hour'' then hour_window anchorDate
      else if view = ''week'' then week_window preset anchorDate
      else month_window anchorDate)"

definition unit_ms_of :: "string \<Rightarrow> int" where
  "unit_ms_of view = (if view = ''hour'' then 3600000 else DAY_MS)"

definition min_units_of :: "string \<Rightarrow> real" where
  "min_units_of view = (if view = ''hour'' then 1 / 12 else 1 / 48)"



text \<open>
  Sample inputs: Friday 2024-10-04 as the anchor; a task of one minute at 10:00 of that
  day; a task from 12:00 to 13:00 of that day; a task from 22:00 of the day before to
  06:00 of that day.
\<close>

definition sample_day :: date where
  "sample_day = newDate 2024 9 4"

definition short_task :: task where
  "short_task = \<lparr> task_id = ''t1'', resourceId = ''rA'',
      start = sample_day + 10 * HOUR_MS, end' = sample_day + 10 * HOUR_MS + 60000,
      title = ''T1'', color = ''#3B82F6'' \<rparr>"

definition noon_task :: task where
  "noon_task = \<lparr> task_id = ''t2'', resourceId = ''rA'',
      start = sample_day + 12 * HOUR_MS, end' = sample_day + 13 * HOUR_MS,
      title = ''T2'', color = ''#10B981'' \<rparr>"

definition overnight_task :: task where
  "overnight_task = \<lparr> task_id = ''t3'', resourceId = ''rA'',
      start = sample_day - 2 * HOUR_MS, end' = sample_day + 6 * HOUR_MS,
      title = ''Overnight'', color = ''#F59E0B'' \<rparr>"

section \<open>Lane assignment\<close>

record item =
  it_task :: task
  it_seg :: seg

record placed =
  p_task :: task
  p_seg :: seg
  lane :: int

record lanes =
  items :: "placed list"
  laneCount :: int

text \<open>\<open>Array.prototype.findIndex\<close>; no index stands for the result -1.\<close>

fun findIndex :: "('a \<Rightarrow> bool) \<Rightarrow> 'a list \<Rightarrow> nat option" where
  "findIndex P [] = None"
| "findIndex P (x # xs) =
     (if P x then Some 0 else (case findIndex P xs of None \<Rightarrow> None | Some i \<Rightarrow> Some (Suc i)))"

text \<open>
  The body of the loop of \<open>assignLanes\<close>: the lane ends after placing the item, and
  its lane. The tolerance of the test for a free lane is \<open>1e-9\<close>. At the cap the
  lane is \<open>maxLanes - 1\<close>, an index of the array when \<open>maxLanes \<ge> 1\<close>; for
  \<open>maxLanes \<le> 0\<close> it is no index, and the assignment leaves the array's elements
  as they are.
\<close>

definition lane_eps :: real where
  "lane_eps = 1 / 10 ^ 9"

definition place :: "int \<Rightarrow> real list \<Rightarrow> item \<Rightarrow> real list \<times> int" where
  "place maxLanes laneEnds it =
     (case findIndex (\<lambda>e. e \<le> startUnit (it_seg it) + lane_eps) laneEnds of
        None \<Rightarrow>
          if int (length laneEnds) < maxLanes
          then (laneEnds @ [endUnit (it_seg it)], int (length laneEnds))
          else (let l = maxLanes - 1
                in (if 0 \<le> l
                    then laneEnds[nat l := max (laneEnds ! nat l) (endUnit (it_seg it))]
                    else laneEnds, l))
      | Some i \<Rightarrow> (laneEnds[i := endUnit (it_seg it)], int i))"

fun lanes_loop :: "int \<Rightarrow> real list \<Rightarrow> placed list \<Rightarrow> item list \<Rightarrow> real list \<times> placed list" where
  "lanes_loop maxLanes laneEnds out [] = (laneEnds, out)"
| "lanes_loop maxLanes laneEnds out (it # rest) =
     (let (laneEnds', l) = place maxLanes laneEnds it
      in lanes_loop maxLanes laneEnds'
           (out @ [\<lparr> p_task = it_task it, p_seg = it_seg it, lane = l \<rparr>]) rest)"

text \<open>
  The comparator \<open>a.seg.startUnit - b.seg.startUnit || a.seg.endUnit - b.seg.endUnit\<close>
  orders by start, then by end; the sort is stable.
\<close>

definition sort_items :: "item list \<Rightarrow> item list" where
  "sort_items its = sort_key (\<lambda>it. (startUnit (it_seg it), endUnit (it_seg it))) its"

definition assignLanes :: "item list \<Rightarrow> int \<Rightarrow> lanes" where
  "assignLanes its maxLanes =
     (let sorted = sort_items its;
          (laneEnds, out) = lanes_loop maxLanes [] [] sorted
      in \<lparr> items = out, laneCount = max 1 (int (length laneEnds)) \<rparr>)"




text \<open>A number on the grid of step \<open>h\<close>: an integer multiple of \<open>h\<close>.\<close>

definition is_multiple :: "real \<Rightarrow> real \<Rightarrow> bool" where
  "is_multiple h x = (real_of_int \<lfloor>x / h\<rfloor> * h = x)"









section \<open>Row layout\<close>

record row =
  row_items :: "placed list"
  row_laneCount :: int
  rowHeight :: int

definition BASE_ROW_PX :: int where
  "BASE_ROW_PX = 40"

text \<open>The inner loop of \<open>rowLayout\<close>: the segments of the tasks of one resource.\<close>

fun row_segs :: "resource \<Rightarrow> string \<Rightarrow> string \<Rightarrow> date \<Rightarrow> task list \<Rightarrow> item list" where
  "row_segs r view preset anchor [] = []"
| "row_segs r view preset anchor (t # ts) =
     (if resourceId t \<noteq> res_id r then row_segs r view preset anchor ts
      else (case projectTaskToView t view preset anchor of
              None \<Rightarrow> row_segs r view preset anchor ts
            | Some sg \<Rightarrow> \<lparr> it_task = t, it_seg = sg \<rparr> # row_segs r view preset anchor ts))"

definition row_of ::
  "string \<Rightarrow> string \<Rightarrow> date \<Rightarrow> int \<Rightarrow> int \<Rightarrow> task list \<Rightarrow> resource \<Rightarrow> row" where
  "row_of view preset anchor maxLanes laneOffset tasks r =
     (let segs = row_segs r view preset anchor tasks;
          lay = assignLanes segs maxLanes;
          h = BASE_ROW_PX + max 0 (laneCount lay - 1) * laneOffset
      in \<lparr> row_items = items lay, row_laneCount = laneCount lay, rowHeight = h \<rparr>)"

text \<open>
  \<open>rowLayout\<close> (first copy): a \<open>Map\<close> from resource id to row, filled in the order
  of the resources. The anchor is the view date in hour view and the anchor month
  otherwise.
\<close>

definition rowLayout ::
  "resource list \<Rightarrow> task list \<Rightarrow> string \<Rightarrow> string \<Rightarrow> date \<Rightarrow> date \<Rightarrow> int \<Rightarrow> int \<Rightarrow>
   (string \<rightharpoonup> row)" where
  "rowLayout resources tasks view preset hourViewDate anchorDate maxLanes laneOffset =
     foldl (\<lambda>byId r. byId(res_id r \<mapsto>
               row_of view preset (if view = ''hour'' then hourViewDate else anchorDate)
                 maxLanes laneOffset tasks r))
       Map.empty resources"

text \<open>Sample input: two resources, and a task of a resource that is not among them.\<close>

definition sample_resources :: "resource list" where
  "sample_resources = [\<lparr> res_id = ''rA'', res_name = ''Alice'' \<rparr>,
                       \<lparr> res_id = ''rB'', res_name = ''Bob'' \<rparr>]"

definition ghost_task :: task where
  "ghost_task = \<lparr> task_id = ''t9'', resourceId = ''r-none'',
      start = sample_day + 9 * HOUR_MS, end' = sample_day + 11 * HOUR_MS,
      title = ''T9'', color = ''#EF4444'' \<rparr>"

section \<open>Scale calculator\<close>

text \<open>
  \<open>useGanttScale(view, preset, anchorDate, chartScrollRef)\<close>; the two copies are the
  same. The viewport width is \<open>chartScrollRef.current?.clientWidth || 1200\<close>: the
  \<open>clientWidth\<close> of a DOM element is a non-negative integer, absent while the
  element is not mounted.
\<close>

definition csW_of :: "nat option \<Rightarrow> int" where
  "csW_of clientWidth =
     (case clientWidth of None \<Rightarrow> 1200 | Some w \<Rightarrow> if w = 0 then 1200 else int w)"

definition useGanttScale :: "string \<Rightarrow> string \<Rightarrow> date \<Rightarrow> nat option \<Rightarrow> scale" where
  "useGanttScale view preset anchorDate clientWidth =
     (let csW = csW_of clientWidth;
          (total, visible) =
            (if view = ''hour'' then
               (24, case match_digits preset of
                      Some m \<Rightarrow> clamp (parseInt m) 1 24
                    | None \<Rightarrow> 24)
             else if view = ''week'' then
               (let t = (if test_Work_i preset then 5 else 7) in (t, t))
             else
               (let t = daysInMonth anchorDate
                in (t, if contains_str ''14'' preset then 14
                       else if contains_str ''7'' preset then 7 else t)));
          ppu = real_of_int csW / real_of_int (max 1 visible)
      in \<lparr> totalUnits = total, visibleUnits = visible, pxPerUnit = ppu,
           contentPx = ppu * real_of_int total \<rparr>)"

section \<open>Snapping\<close>


section \<open>Hit testing\<close>

text \<open>
  A \<open>DOMRect\<close> has an origin and a size; its edges are derived from them.
\<close>

record rect =
  rect_x :: real
  rect_y :: real
  rect_width :: real
  rect_height :: real

definition rect_left :: "rect \<Rightarrow> real" where
  "rect_left r = min (rect_x r) (rect_x r + rect_width r)"

definition rect_right :: "rect \<Rightarrow> real" where
  "rect_right r = max (rect_x r) (rect_x r + rect_width r)"

definition rect_top :: "rect \<Rightarrow> real" where
  "rect_top r = min (rect_y r) (rect_y r + rect_height r)"

definition rect_bottom :: "rect \<Rightarrow> real" where
  "rect_bottom r = max (rect_y r) (rect_y r + rect_height r)"

text \<open>
  A bar element, as far as the code reads it: the inline style's \<open>left\<close> and
  \<open>width\<close> as numbers of pixels (absent when unset or not a number) and its
  bounding rectangle.
\<close>

record element =
  style_left :: "real option"
  style_width :: "real option"
  bounding :: rect

text \<open>
  The geometry map \<open>geomMapRef.current\<close> is a \<open>Map\<close> from task id to element and
  rectangle; \<open>forEach\<close> visits its entries in insertion order, so it is the list of
  its entries.
\<close>

type_synonym geom = "(string \<times> element \<times> rect) list"

definition contains_point :: "rect \<Rightarrow> real \<Rightarrow> real \<Rightarrow> bool" where
  "contains_point r clientX clientY =
     (clientX \<ge> rect_left r \<and> clientX \<le> rect_right r \<and>
      clientY \<ge> rect_top r \<and> clientY \<le> rect_bottom r)"

definition center_dist :: "rect \<Rightarrow> real \<Rightarrow> real" where
  "center_dist r clientY = \<bar>clientY - (rect_top r + rect_height r / 2)\<bar>"

text \<open>
  The body of the \<open>forEach\<close> in \<open>pickBarAt\<close>; the state is \<open>best\<close> and \<open>bestDy\<close>,
  where no \<open>bestDy\<close> stands for \<open>Infinity\<close>.
\<close>

fun pick_step ::
  "real \<Rightarrow> real \<Rightarrow> (string \<times> element \<times> rect) option \<times> real option \<Rightarrow>
   string \<times> element \<times> rect \<Rightarrow> (string \<times> element \<times> rect) option \<times> real option" where
  "pick_step clientX clientY (best, bestDy) (taskId, e, r) =
     (if contains_point r clientX clientY then
        (let dy = center_dist r clientY
         in if (case bestDy of None \<Rightarrow> True | Some b \<Rightarrow> dy < b)
            then (Some (taskId, e, r), Some dy)
            else (best, bestDy))
      else (best, bestDy))"

definition pickBarAt :: "geom \<Rightarrow> real \<Rightarrow> real \<Rightarrow> (string \<times> element \<times> rect) option" where
  "pickBarAt g clientX clientY = fst (foldl (pick_step clientX clientY) (None, None) g)"

text \<open>
  What holds of \<open>best\<close> and \<open>bestDy\<close> after the entries \<open>g\<close> have been visited:
  nothing is chosen and no entry contains the point, or the chosen entry is the first
  among the containing entries that are nearest to the pointer.
\<close>

definition pick_inv ::
  "geom \<Rightarrow> real \<Rightarrow> real \<Rightarrow> (string \<times> element \<times> rect) option \<times> real option \<Rightarrow> bool" where
  "pick_inv g x y st =
     (case fst st of
        None \<Rightarrow> snd st = None \<and> (\<forall>i < length g. \<not> contains_point (snd (snd (g ! i))) x y)
      | Some h \<Rightarrow>
          snd st = Some (center_dist (snd (snd h)) y) \<and>
          (\<exists>i < length g. g ! i = h \<and> contains_point (snd (snd h)) x y \<and>
             (\<forall>j < length g. contains_point (snd (snd (g ! j))) x y \<longrightarrow>
                center_dist (snd (snd h)) y \<le> center_dist (snd (snd (g ! j))) y \<and>
                (center_dist (snd (snd (g ! j))) y = center_dist (snd (snd h)) y \<longrightarrow> i \<le> j))))"

text \<open>
  Sample input: two bars that overlap, the second five pixels lower, each 28 pixels
  high.
\<close>

definition sample_el :: element where
  "sample_el = \<lparr> style_left = Some 100, style_width = Some 50,
      bounding = \<lparr> rect_x = 100, rect_y = 0, rect_width = 50, rect_height = 28 \<rparr> \<rparr>"

definition sample_geom :: geom where
  "sample_geom =
     [(''a'', sample_el, \<lparr> rect_x = 0, rect_y = 0, rect_width = 50, rect_height = 28 \<rparr>),
      (''b'', sample_el, \<lparr> rect_x = 0, rect_y = 5, rect_width = 50, rect_height = 28 \<rparr>)]"

section \<open>End of a drag\<close>

record drag =
  mode :: string
  el :: element
  startX :: real
  origLeft :: real
  origWidth :: real
  drag_task_id :: string

record change =
  ch_startUnit :: real
  durationU :: real
  ch_mode :: string
  ch_snapUnits :: real

text \<open>
  What the \<open>mouseup\<close> handler reads and writes: the drag in progress, the tooltip,
  the cursor, the component's task list, and the calls made to \<open>onTasksChange\<close>,
  each with the id of its task and its change record.
\<close>

record drag_world =
  dragRef :: "drag option"
  tip :: bool
  cursor :: string
  internalTasks :: "task list"
  calls :: "(string \<times> change) list"

text \<open>
  \<open>onUp\<close> of the first copy of \<open>useBarDrag\<close>. \<open>has_callback\<close> is
  \<open>typeof onTasksChange === 'function'\<close>. \<open>parseFloat(s || '0') || v\<close> yields the
  parsed number unless it is absent or 0.
\<close>

definition onUp :: "scale option \<Rightarrow> bool \<Rightarrow> real \<Rightarrow> drag_world \<Rightarrow> drag_world" where
  "onUp sc has_callback snapUnits w =
     (case (dragRef w, sc) of
        (Some ds, Some c) \<Rightarrow>
          (let e = el ds;
               leftPx = (case style_left e of Some v \<Rightarrow> v | None \<Rightarrow> 0);
               widthPx = (case style_width e of
                            Some v \<Rightarrow> if v = 0 then rect_width (bounding e) else v
                          | None \<Rightarrow> rect_width (bounding e));
               startU = leftPx / pxPerUnit c;
               durU = max (1 / 10) (widthPx / pxPerUnit c);
               chg = \<lparr> ch_startUnit = startU, durationU = durU, ch_mode = mode ds,
                       ch_snapUnits = snapUnits \<rparr>
           in w \<lparr> calls := (if has_callback then calls w @ [(drag_task_id ds, chg)] else calls w),
                 internalTasks :=
                   map (\<lambda>t. if task_id t = drag_task_id ds then t else t) (internalTasks w),
                 dragRef := None,
                 cursor := ''default'',
                 tip := False \<rparr>)
      | _ \<Rightarrow> w \<lparr> tip := False, dragRef := None \<rparr>)"

text \<open>Sample input: a move of the bar of task t1 in progress, at 50 pixels per hour.\<close>

definition sample_scale :: scale where
  "sample_scale = \<lparr> totalUnits = 24, visibleUnits = 24, pxPerUnit = 50, contentPx = 1200 \<rparr>"

definition sample_world :: drag_world where
  "sample_world =
     \<lparr> dragRef = Some \<lparr> mode = ''move'', el = sample_el, startX = 120, origLeft = 80,
                        origWidth = 50, drag_task_id = ''t1'' \<rparr>,
       tip = True, cursor = ''grabbing'', internalTasks = [short_task, noon_task],
       calls = [] \<rparr>"

section \<open>Properties\<close>

subsection \<open>Segment to pixels\<close>

text \<open>
  C10: \<open>segToPixels\<close> is total; when the segment or the scale is missing it returns
  left 0 and width 0, and for every segment and scale it returns a width of at least
  4 pixels.
\<close>

theorem segToPixels_floor:
  "(sg = None \<or> sc = None \<longrightarrow>
      leftPx (segToPixels sg sc) = 0 \<and> widthPx (segToPixels sg sc) = 0) \<and>
   (\<forall>s c. widthPx (segToPixels (Some s) (Some c)) \<ge> 4)"
  by (auto simp: segToPixels_def split: option.splits)

theorem segToPixels_floor_witness:
  "leftPx (segToPixels None (None :: scale option)) = 0 \<and>
   widthPx (segToPixels None (None :: scale option)) = 0 \<and>
   widthPx (segToPixels (Some \<lparr>startUnit = 10, endUnit = 10 + 1 / 12, label = ''T1''\<rparr>)
      (Some \<lparr>totalUnits = 24, visibleUnits = 24, pxPerUnit = 10, contentPx = 240\<rparr>)) \<ge> 4"
  using segToPixels_floor [of None None] by simp

subsection \<open>Scale\<close>

text \<open>
  C6: for every view, preset, anchor and viewport width, the scale has
  \<open>pxPerUnit = viewportWidth / max 1 visibleUnits\<close> and
  \<open>contentPx = pxPerUnit * totalUnits\<close>, with 24 total units in hour view, 5 or 7 in
  week view and the days of the anchor's month in month view; a zero or absent
  viewport width is replaced by 1200, so \<open>pxPerUnit\<close> is positive.
\<close>

theorem useGanttScale_formula:
  "pxPerUnit (useGanttScale view preset anchorDate clientWidth) =
     real_of_int (csW_of clientWidth) /
     real_of_int (max 1 (visibleUnits (useGanttScale view preset anchorDate clientWidth))) \<and>
   contentPx (useGanttScale view preset anchorDate clientWidth) =
     pxPerUnit (useGanttScale view preset anchorDate clientWidth) *
     real_of_int (totalUnits (useGanttScale view preset anchorDate clientWidth)) \<and>
   (view = ''hour'' \<longrightarrow> totalUnits (useGanttScale view preset anchorDate clientWidth) = 24) \<and>
   (view = ''week'' \<longrightarrow>
      totalUnits (useGanttScale view preset anchorDate clientWidth) = 5 \<or>
      totalUnits (useGanttScale view preset anchorDate clientWidth) = 7) \<and>
   (view = ''month'' \<longrightarrow>
      totalUnits (useGanttScale view preset anchorDate clientWidth) = daysInMonth anchorDate) \<and>
   (clientWidth = None \<or> clientWidth = Some 0 \<longrightarrow> csW_of clientWidth = 1200) \<and>
   (\<forall>w. clientWidth = Some w \<and> w \<noteq> 0 \<longrightarrow> csW_of clientWidth = int w) \<and>
   0 < pxPerUnit (useGanttScale view preset anchorDate clientWidth)"
  by (auto simp: useGanttScale_def csW_of_def Let_def split: option.splits)

theorem useGanttScale_formula_witness:
  "pxPerUnit (useGanttScale ''week'' ''Work Week'' sample_day (Some 0)) = 1200 / 5 \<and>
   contentPx (useGanttScale ''week'' ''Work Week'' sample_day (Some 0)) = 240 * 5 \<and>
   totalUnits (useGanttScale ''week'' ''Work Week'' sample_day (Some 0)) = 5 \<and>
   csW_of (Some 0) = 1200 \<and>
   0 < pxPerUnit (useGanttScale ''week'' ''Work Week'' sample_day (Some 0))"
proof -
  have v: "useGanttScale ''week'' ''Work Week'' sample_day (Some 0) =
      \<lparr> totalUnits = 5, visibleUnits = 5, pxPerUnit = 240, contentPx = 1200 \<rparr>"
    by code_simp
  from useGanttScale_formula [of "''week''" "''Work Week''" sample_day "Some 0"] v
  show ?thesis by simp
qed

subsection \<open>Snapping\<close>






subsection \<open>Hit testing\<close>

lemma pick_inv_foldl: "pick_inv g x y (foldl (pick_step x y) (None, None) g)"
proof (induction g rule: rev_induct)
  case Nil
  then show ?case by (simp add: pick_inv_def)
next
  case (snoc e g)
  obtain best bestDy where st: "foldl (pick_step x y) (None, None) g = (best, bestDy)"
    by (cases "foldl (pick_step x y) (None, None) g")
  obtain tid el r where e: "e = (tid, el, r)" by (cases e)
  have inv: "pick_inv g x y (best, bestDy)" using snoc st by simp
  show ?case
  proof (cases "contains_point r x y")
    case False
    then show ?thesis using inv
      by (auto simp: st e pick_inv_def nth_append less_Suc_eq split: option.splits)
  next
    case True
    show ?thesis
    proof (cases best)
      case None
      then show ?thesis using inv True
        by (auto simp: st e pick_inv_def nth_append less_Suc_eq Let_def split: option.splits)
    next
      case (Some h)
      then obtain i where i: "i < length g" "g ! i = h" "contains_point (snd (snd h)) x y"
        and mn: "\<forall>j < length g. contains_point (snd (snd (g ! j))) x y \<longrightarrow>
                center_dist (snd (snd h)) y \<le> center_dist (snd (snd (g ! j))) y \<and>
                (center_dist (snd (snd (g ! j))) y = center_dist (snd (snd h)) y \<longrightarrow> i \<le> j)"
        and dy: "bestDy = Some (center_dist (snd (snd h)) y)"
        using inv by (auto simp: pick_inv_def)
      show ?thesis
      proof (cases "center_dist r y < center_dist (snd (snd h)) y")
        case True
        have "pick_step x y (best, bestDy) e = (Some e, Some (center_dist r y))"
          using True \<open>contains_point r x y\<close> dy by (simp add: e Let_def)
        moreover have "pick_inv (g @ [e]) x y (Some e, Some (center_dist r y))"
          unfolding pick_inv_def using True \<open>contains_point r x y\<close> mn
          apply (simp add: e)
          apply (rule exI[of _ "length g"])
          apply (auto simp: nth_append less_Suc_eq)
          done
        ultimately show ?thesis by (simp add: st)
      next
        case False
        have "pick_step x y (best, bestDy) e = (best, bestDy)"
          using False \<open>contains_point r x y\<close> dy by (simp add: e Let_def)
        moreover have "pick_inv (g @ [e]) x y (best, bestDy)"
          unfolding pick_inv_def using False \<open>contains_point r x y\<close> mn i Some dy
          apply simp
          apply (rule exI[of _ i])
          apply (auto simp: nth_append less_Suc_eq e)
          done
        ultimately show ?thesis by (simp add: st)
      qed
    qed
  qed
qed

text \<open>
  C5: \<open>pickBarAt\<close> returns nothing when no captured rectangle contains the point;
  otherwise it returns an entry whose rectangle contains the point and whose centre is
  nearest to the pointer's y among the containing rectangles, the first such entry of
  the scan.
\<close>

theorem pickBarAt_nearest:
  "(pickBarAt g x y = None \<longleftrightarrow> (\<forall>i < length g. \<not> contains_point (snd (snd (g ! i))) x y)) \<and>
   (\<forall>h. pickBarAt g x y = Some h \<longrightarrow>
      (\<exists>i < length g. g ! i = h \<and> contains_point (snd (snd h)) x y \<and>
         (\<forall>j < length g. contains_point (snd (snd (g ! j))) x y \<longrightarrow>
            center_dist (snd (snd h)) y \<le> center_dist (snd (snd (g ! j))) y \<and>
            (center_dist (snd (snd (g ! j))) y = center_dist (snd (snd h)) y \<longrightarrow> i \<le> j))))"
  using pick_inv_foldl[of g x y]
  unfolding pickBarAt_def pick_inv_def
  by (cases "fst (foldl (pick_step x y) (None, None) g)") auto

theorem pickBarAt_nearest_witness:
  "pickBarAt sample_geom 10 25 = Some (sample_geom ! 1) \<and>
   contains_point (snd (snd (sample_geom ! 1))) 10 25 \<and>
   contains_point (snd (snd (sample_geom ! 0))) 10 25 \<and>
   center_dist (snd (snd (sample_geom ! 1))) 25 \<le> center_dist (snd (snd (sample_geom ! 0))) 25"
proof -
  have v: "pickBarAt sample_geom 10 25 = Some (sample_geom ! 1)"
    by code_simp
  have c0: "contains_point (snd (snd (sample_geom ! 0))) 10 25"
    by code_simp
  have l: "0 < length sample_geom"
    by (simp add: sample_geom_def)
  from pickBarAt_nearest [of sample_geom 10 25] v
  have "\<exists>i < length sample_geom. sample_geom ! i = sample_geom ! 1 \<and>
          contains_point (snd (snd (sample_geom ! 1))) 10 25 \<and>
          (\<forall>j < length sample_geom. contains_point (snd (snd (sample_geom ! j))) 10 25 \<longrightarrow>
             center_dist (snd (snd (sample_geom ! 1))) 25
               \<le> center_dist (snd (snd (sample_geom ! j))) 25 \<and>
             (center_dist (snd (snd (sample_geom ! j))) 25 =
              center_dist (snd (snd (sample_geom ! 1))) 25 \<longrightarrow> i \<le> j))"
    by blast
  then show ?thesis using v c0 l by blast
qed

subsection \<open>End of a drag\<close>

text \<open>
  C8: the pointer-up that ends an active drag calls \<open>onTasksChange\<close> (when one is
  given) exactly once, with the task's id and a change record that carries the drag's
  mode and the snap unit and, for a positive \<open>pxPerUnit\<close>, the start and the
  duration read from the dragged element; it ends the drag; and no pointer-up changes
  the component's task list.
\<close>

theorem onUp_reports_once_and_keeps_tasks:
  "internalTasks (onUp sc cb su w) = internalTasks w \<and>
   (dragRef w = Some ds \<and> sc = Some c \<longrightarrow>
      (\<exists>chg. calls (onUp sc True su w) = calls w @ [(drag_task_id ds, chg)] \<and>
             ch_mode chg = mode ds \<and> ch_snapUnits chg = su \<and>
             (0 < pxPerUnit c \<longrightarrow>
                ch_startUnit chg =
                  (case style_left (el ds) of Some v \<Rightarrow> v | None \<Rightarrow> 0) / pxPerUnit c \<and>
                durationU chg =
                  max (1 / 10)
                    ((case style_width (el ds) of
                        Some v \<Rightarrow> if v = 0 then rect_width (bounding (el ds)) else v
                      | None \<Rightarrow> rect_width (bounding (el ds))) / pxPerUnit c))) \<and>
      dragRef (onUp sc True su w) = None)"
  by (auto simp: onUp_def Let_def split: option.splits)

theorem onUp_reports_once_and_keeps_tasks_witness:
  "internalTasks (onUp (Some sample_scale) True (1 / 4) sample_world) = [short_task, noon_task] \<and>
   calls (onUp (Some sample_scale) True (1 / 4) sample_world) =
     [(''t1'', \<lparr> ch_startUnit = 2, durationU = 1, ch_mode = ''move'', ch_snapUnits = 1 / 4 \<rparr>)] \<and>
   dragRef (onUp (Some sample_scale) True (1 / 4) sample_world) = None"
proof -
  have d: "dragRef sample_world =
      Some \<lparr> mode = ''move'', el = sample_el, startX = 120, origLeft = 80,
             origWidth = 50, drag_task_id = ''t1'' \<rparr> \<and> Some sample_scale = Some sample_scale"
    by (simp add: sample_world_def)
  have p: "0 < pxPerUnit sample_scale"
    by (simp add: sample_scale_def)
  from onUp_reports_once_and_keeps_tasks
         [of "Some sample_scale" True "1 / 4" sample_world
             "\<lparr> mode = ''move'', el = sample_el, startX = 120, origLeft = 80,
                origWidth = 50, drag_task_id = ''t1'' \<rparr>" sample_scale] d p
  obtain chg where
    c: "calls (onUp (Some sample_scale) True (1 / 4) sample_world) = calls sample_world @ [(''t1'', chg)]"
      "ch_mode chg = ''move''" "ch_snapUnits chg = 1 / 4"
      "ch_startUnit chg = 100 / pxPerUnit sample_scale"
      "durationU chg = max (1 / 10) (50 / pxPerUnit sample_scale)"
    and k: "internalTasks (onUp (Some sample_scale) True (1 / 4) sample_world) = internalTasks sample_world"
      "dragRef (onUp (Some sample_scale) True (1 / 4) sample_world) = None"
    by (auto simp: sample_el_def)
  have "chg = \<lparr> ch_startUnit = 2, durationU = 1, ch_mode = ''move'', ch_snapUnits = 1 / 4 \<rparr>"
    using c(2-5) by (cases chg) (simp add: sample_scale_def)
  with c(1) k show ?thesis by (simp add: sample_world_def)
qed

subsection \<open>Time projection\<close>

lemma projectTaskToView_as_clip:
  assumes "view = ''hour'' \<or> view = ''week'' \<or> view = ''month''"
  shows "projectTaskToView t view preset anchorDate =
         clip_to_window t (view_window view preset anchorDate) (unit_ms_of view) (min_units_of view)"
  using assms
  by (auto simp: projectTaskToView_def clip_to_window_def view_window_def hour_window_def
        week_window_def month_window_def unit_ms_of_def min_units_of_def Let_def)


lemma clip_to_window_Some:
  assumes "clip_to_window t w u m = Some sg" and "0 < u"
  shows "real_of_int (fst w) + startUnit sg * real_of_int u = real_of_int (max (start t) (fst w))"
    and "real_of_int (fst w) + endUnit sg * real_of_int u =
           max (real_of_int (min (end' t) (snd w)))
               (real_of_int (max (start t) (fst w)) + m * real_of_int u)"
    and "endUnit sg - startUnit sg \<ge> m"
    and "label sg = title t"
proof -
  let ?s = "max (start t) (fst w)" and ?e = "min (end' t) (snd w)"
  have u: "real_of_int u > 0" using assms(2) by simp
  have sg: "sg = \<lparr> startUnit = real_of_int (?s - fst w) / real_of_int u,
                   endUnit = max (real_of_int (?s - fst w) / real_of_int u + m)
                                 (real_of_int (?e - fst w) / real_of_int u),
                   label = title t \<rparr>"
    using assms(1) by (simp add: clip_to_window_def Let_def split: if_splits)
  show "real_of_int (fst w) + startUnit sg * real_of_int u = real_of_int ?s"
    using u by (simp add: sg)
  have "max (real_of_int (?s - fst w) / real_of_int u + m) (real_of_int (?e - fst w) / real_of_int u) * real_of_int u
        = max ((real_of_int (?s - fst w) / real_of_int u + m) * real_of_int u) (real_of_int (?e - fst w) / real_of_int u * real_of_int u)"
    using u by (simp add: max_mult_distrib_right)
  also have "\<dots> = max (real_of_int (?s - fst w) + m * real_of_int u) (real_of_int (?e - fst w))"
    using u by (simp add: distrib_right)
  finally show "real_of_int (fst w) + endUnit sg * real_of_int u =
           max (real_of_int ?e) (real_of_int ?s + m * real_of_int u)"
    by (simp add: sg max_def)
  show "endUnit sg - startUnit sg \<ge> m" by (simp add: sg)
  show "label sg = title t" by (simp add: sg)
qed




text \<open>
  The second copy of \<open>projectTaskToView\<close> does not clip: in hour view the task
  from 22:00 of the day before to 06:00 of the anchor's day is shown from 22 to 22.05,
  not from 0 to 6.
\<close>

lemma projectTaskToView_v2_raw_clock:
  "projectTaskToView_v2 overnight_task ''hour'' ''24 Hours'' sample_day =
     Some \<lparr> startUnit = 22, endUnit = 22 + 1 / 20, label = ''Overnight'' \<rparr>"
  by code_simp

text \<open>
  The first copy of \<open>projectTaskToView\<close> keeps the minimum width: 1/12 of an hour in
  hour view, 1/48 of a day in week and month view.
\<close>

lemma projectTaskToView_min_width:
  assumes "projectTaskToView t view preset anchorDate = Some sg"
  shows "endUnit sg - startUnit sg \<ge> min_units_of view"
proof -
  have v: "view = ''hour'' \<or> view = ''week'' \<or> view = ''month''"
    using assms by (auto simp: projectTaskToView_def split: if_splits)
  have p: "projectTaskToView t view preset anchorDate =
           clip_to_window t (view_window view preset anchorDate) (unit_ms_of view) (min_units_of view)"
    using v by (rule projectTaskToView_as_clip)
  have u: "0 < unit_ms_of view" by (simp add: unit_ms_of_def DAY_MS_def HOUR_MS_def)
  show ?thesis using clip_to_window_Some(3)[OF _ u] assms p by simp
qed

text \<open>
  C4 on the second copy of \<open>projectTaskToView\<close>: in hour view the one-minute task at
  10:00 gets the width 1/20 (three minutes), below 1/12; in week view the task from
  12:00 to 13:00 gets an end before its start.
\<close>

theorem projectTaskToView_v2_below_floor:
  "projectTaskToView_v2 short_task ''hour'' ''24 Hours'' sample_day =
     Some \<lparr> startUnit = 10, endUnit = 10 + 1 / 20, label = ''T1'' \<rparr> \<and>
   (10 + 1 / 20 :: real) - 10 < 1 / 12 \<and>
   projectTaskToView_v2 noon_task ''week'' ''Full Week'' sample_day =
     Some \<lparr> startUnit = 5 + 1 / 2, endUnit = 5 + 1 / 24, label = ''T2'' \<rparr> \<and>
   (5 + 1 / 24 :: real) - (5 + 1 / 2) < 1 / 48"
proof -
  have a: "projectTaskToView_v2 short_task ''hour'' ''24 Hours'' sample_day =
     Some \<lparr> startUnit = 10, endUnit = 10 + 1 / 20, label = ''T1'' \<rparr>"
    by code_simp
  have b: "projectTaskToView_v2 noon_task ''week'' ''Full Week'' sample_day =
     Some \<lparr> startUnit = 5 + 1 / 2, endUnit = 5 + 1 / 24, label = ''T2'' \<rparr>"
    by code_simp
  show ?thesis using a b by simp
qed

subsection \<open>Lane assignment\<close>














lemma items_assignLanes: "items (assignLanes its m) = snd (lanes_loop m [] [] (sort_items its))"
  by (simp add: assignLanes_def Let_def split: prod.splits)




lemma lanes_loop_out:
  "map (\<lambda>p. (p_task p, p_seg p)) (snd (lanes_loop m le out its)) =
   map (\<lambda>p. (p_task p, p_seg p)) out @ map (\<lambda>it. (it_task it, it_seg it)) its"
  by (induction its arbitrary: le out) (auto split: prod.splits)

lemma assignLanes_keeps_items:
  "map (\<lambda>p. (p_task p, p_seg p)) (items (assignLanes its m)) =
   map (\<lambda>it. (it_task it, it_seg it)) (sort_items its)"
  by (simp add: items_assignLanes lanes_loop_out)














text \<open>
  The segments of the first copy of \<open>projectTaskToView\<close> are on the grid of one
  millisecond, which is coarser than the tolerance in hours and in days.
\<close>

lemma is_multiple_int_div:
  assumes "0 < u"
  shows "is_multiple (1 / real_of_int u) (real_of_int k / real_of_int u)"
  using assms by (simp add: is_multiple_def)

lemma clip_to_window_on_grid:
  assumes "clip_to_window t w u m = Some sg" and "0 < u"
    and m: "m = real_of_int k / real_of_int u"
  shows "is_multiple (1 / real_of_int u) (startUnit sg) \<and>
         is_multiple (1 / real_of_int u) (endUnit sg)"
proof -
  let ?s = "max (start t) (fst w)" and ?e = "min (end' t) (snd w)"
  have sg: "sg = \<lparr> startUnit = real_of_int (?s - fst w) / real_of_int u,
                   endUnit = max (real_of_int (?s - fst w) / real_of_int u + m)
                                 (real_of_int (?e - fst w) / real_of_int u),
                   label = title t \<rparr>"
    using assms(1) by (simp add: clip_to_window_def Let_def split: if_splits)
  have "real_of_int (?s - fst w) / real_of_int u + m = real_of_int (?s - fst w + k) / real_of_int u"
    by (simp add: m add_divide_distrib)
  hence "endUnit sg = real_of_int (?s - fst w + k) / real_of_int u \<or>
         endUnit sg = real_of_int (?e - fst w) / real_of_int u"
    by (simp add: sg max_def)
  moreover have "startUnit sg = real_of_int (?s - fst w) / real_of_int u" by (simp add: sg)
  ultimately show ?thesis using is_multiple_int_div [OF assms(2)] by metis
qed

lemma projectTaskToView_on_grid:
  assumes "projectTaskToView t view preset anchorDate = Some sg"
  shows "is_multiple (1 / real_of_int (unit_ms_of view)) (startUnit sg) \<and>
         is_multiple (1 / real_of_int (unit_ms_of view)) (endUnit sg) \<and>
         lane_eps < 1 / real_of_int (unit_ms_of view)"
proof -
  have v: "view = ''hour'' \<or> view = ''week'' \<or> view = ''month''"
    using assms by (auto simp: projectTaskToView_def split: if_splits)
  have p: "clip_to_window t (view_window view preset anchorDate) (unit_ms_of view) (min_units_of view) = Some sg"
    using projectTaskToView_as_clip [OF v] assms by simp
  have u: "0 < unit_ms_of view" by (simp add: unit_ms_of_def DAY_MS_def HOUR_MS_def)
  have m: "min_units_of view = real_of_int (if view = ''hour'' then 300000 else 1800000) / real_of_int (unit_ms_of view)"
    by (simp add: min_units_of_def unit_ms_of_def DAY_MS_def HOUR_MS_def)
  have "lane_eps < 1 / real_of_int (unit_ms_of view)"
    by (simp add: lane_eps_def unit_ms_of_def DAY_MS_def HOUR_MS_def)
  with clip_to_window_on_grid [OF p u m] show ?thesis by simp
qed

subsection \<open>Row layout\<close>

lemma row_segs_skip:
  "resourceId t \<noteq> res_id r \<Longrightarrow>
   row_segs r view preset anchor (xs @ t # ys) = row_segs r view preset anchor (xs @ ys)"
  by (induction xs) (auto split: option.splits)

lemma row_segs_tasks:
  "it \<in> set (row_segs r view preset anchor ts) \<Longrightarrow>
   resourceId (it_task it) = res_id r \<and> it_task it \<in> set ts"
  by (induction ts) (auto split: if_splits option.splits)

lemma assignLanes_tasks:
  "set (map p_task (items (assignLanes its m))) = set (map it_task its)"
proof -
  have "map p_task (items (assignLanes its m)) =
        map fst (map (\<lambda>p. (p_task p, p_seg p)) (items (assignLanes its m)))"
    by (simp add: comp_def)
  also have "\<dots> = map it_task (sort_items its)"
    by (simp add: assignLanes_keeps_items comp_def)
  finally show ?thesis by (simp add: sort_items_def)
qed

lemma row_of_tasks:
  assumes "pl \<in> set (row_items (row_of view preset anchor m lo ts r))"
  shows "resourceId (p_task pl) = res_id r \<and> p_task pl \<in> set ts"
proof -
  from assms have "p_task pl \<in> set (map p_task (items (assignLanes (row_segs r view preset anchor ts) m)))"
    by (auto simp: row_of_def Let_def)
  hence "p_task pl \<in> set (map it_task (row_segs r view preset anchor ts))"
    by (simp only: assignLanes_tasks)
  then show ?thesis using row_segs_tasks by fastforce
qed

lemma row_of_skip:
  "resourceId t \<noteq> res_id r \<Longrightarrow>
   row_of view preset anchor m lo (xs @ t # ys) r = row_of view preset anchor m lo (xs @ ys) r"
  by (simp add: row_of_def row_segs_skip)

lemma rowLayout_Some:
  "rowLayout rs ts view preset hv a m lo rid = Some rw \<Longrightarrow>
   \<exists>r \<in> set rs. res_id r = rid \<and>
      rw = row_of view preset (if view = ''hour'' then hv else a) m lo ts r"
  unfolding rowLayout_def
  by (induction rs arbitrary: rw rule: rev_induct) (auto split: if_splits)

text \<open>
  C9: a task whose \<open>resourceId\<close> is the id of no resource is in no row's items, and
  the layout is the one of the task list without it. The layout is a total function:
  nothing is raised.
\<close>

theorem rowLayout_drops_unmatched:
  assumes "\<forall>r \<in> set resources. res_id r \<noteq> resourceId t"
  shows "rowLayout resources (xs @ t # ys) view preset hv a m lo =
         rowLayout resources (xs @ ys) view preset hv a m lo \<and>
         (\<forall>rid rw. rowLayout resources (xs @ t # ys) view preset hv a m lo rid = Some rw \<longrightarrow>
            (\<forall>pl \<in> set (row_items rw). p_task pl \<noteq> t))"
proof
  show "rowLayout resources (xs @ t # ys) view preset hv a m lo =
        rowLayout resources (xs @ ys) view preset hv a m lo"
    unfolding rowLayout_def
    by (rule foldl_cong) (use assms in \<open>auto simp: row_of_skip\<close>)
  show "\<forall>rid rw. rowLayout resources (xs @ t # ys) view preset hv a m lo rid = Some rw \<longrightarrow>
            (\<forall>pl \<in> set (row_items rw). p_task pl \<noteq> t)"
  proof (intro allI impI ballI)
    fix rid rw pl
    assume "rowLayout resources (xs @ t # ys) view preset hv a m lo rid = Some rw"
      and pl: "pl \<in> set (row_items rw)"
    then obtain r where r: "r \<in> set resources"
      "rw = row_of view preset (if view = ''hour'' then hv else a) m lo (xs @ t # ys) r"
      using rowLayout_Some by blast
    with pl row_of_tasks have "resourceId (p_task pl) = res_id r" by blast
    with assms r(1) show "p_task pl \<noteq> t" by auto
  qed
qed

theorem rowLayout_drops_unmatched_witness:
  "rowLayout sample_resources [short_task, ghost_task, noon_task]
      ''hour'' ''24 Hours'' sample_day sample_day 10 5 =
   rowLayout sample_resources [short_task, noon_task]
      ''hour'' ''24 Hours'' sample_day sample_day 10 5 \<and>
   map_option (\<lambda>rw. map (\<lambda>pl. (task_id (p_task pl), lane pl)) (row_items rw))
     (rowLayout sample_resources [short_task, ghost_task, noon_task]
        ''hour'' ''24 Hours'' sample_day sample_day 10 5 ''rA'') =
     Some [(''t1'', 0), (''t2'', 0)]"
proof -
  have h: "\<forall>r \<in> set sample_resources. res_id r \<noteq> resourceId ghost_task"
    by (simp add: sample_resources_def ghost_task_def)
  have v: "map_option (\<lambda>rw. map (\<lambda>pl. (task_id (p_task pl), lane pl)) (row_items rw))
     (rowLayout sample_resources [short_task, noon_task]
        ''hour'' ''24 Hours'' sample_day sample_day 10 5 ''rA'') =
     Some [(''t1'', 0), (''t2'', 0)]"
    by code_simp
  from rowLayout_drops_unmatched [OF h, of "[short_task]" "[noon_task]"
         "''hour''" "''24 Hours''" sample_day sample_day 10 5] v
  show ?thesis by simp
qed

end
